theory Spec2Isabelle
  imports Complex_Main
begin

section \<open>JavaScript values\<close>

text \<open>
  The catalogue is whatever \<open>response.json()\<close> yields, so the program is modelled over JSON
  values with JavaScript's coercions. A string is a well-formed Unicode string held as its
  UTF-8 bytes (strings with unpaired surrogates are outside the model). A finite number is the
  exact rational value of the double; \<open>-0\<close> is identified with \<open>0\<close> (no operation of this
  program tells them apart). An object is its list of own properties.
\<close>

datatype jsnum = NaN | PosInf | NegInf | Fin rat

datatype js =
    Undefined
  | Null
  | Bool bool
  | Num jsnum
  | Str string
  | Arr "js list"
  | Obj "(string \<times> js) list"

datatype error = TypeError | SyntaxError | FailedToLoad nat

text \<open>A computation that may throw is a sum, \<open>Inl\<close> the exception; \<open>bnd\<close> sequences two.\<close>

definition bnd :: "error + 'a \<Rightarrow> ('a \<Rightarrow> error + 'b) \<Rightarrow> error + 'b" where
  "bnd m f = (case m of Inl e \<Rightarrow> Inl e | Inr x \<Rightarrow> f x)"

subsection \<open>String primitives\<close>

fun startsWith :: "string \<Rightarrow> string \<Rightarrow> bool" where
  "startsWith s [] = True"
| "startsWith [] (p # ps) = False"
| "startsWith (c # cs) (p # ps) = (c = p \<and> startsWith cs ps)"

text \<open>\<open>s.includes(p)\<close>: \<open>p\<close> occurs in \<open>s\<close> as a substring.\<close>

fun str_includes :: "string \<Rightarrow> string \<Rightarrow> bool" where
  "str_includes [] p = (p = [])"
| "str_includes (c # cs) p = (startsWith (c # cs) p \<or> str_includes cs p)"

text \<open>
  White space (\<open>WhiteSpace\<close> and \<open>LineTerminator\<close> of ECMAScript), as UTF-8: TAB, LF, VT, FF,
  CR, SP, U+00A0, U+1680, U+2000 to U+200A, U+2028, U+2029, U+202F, U+205F, U+3000, U+FEFF.
\<close>

definition ws_seqs :: "string list" where
  "ws_seqs =
     [[CHR 0x09], [CHR 0x0A], [CHR 0x0B], [CHR 0x0C], [CHR 0x0D], [CHR 0x20],
      [CHR 0xC2, CHR 0xA0], [CHR 0xE1, CHR 0x9A, CHR 0x80],
      [CHR 0xE2, CHR 0x80, CHR 0x80], [CHR 0xE2, CHR 0x80, CHR 0x81],
      [CHR 0xE2, CHR 0x80, CHR 0x82], [CHR 0xE2, CHR 0x80, CHR 0x83],
      [CHR 0xE2, CHR 0x80, CHR 0x84], [CHR 0xE2, CHR 0x80, CHR 0x85],
      [CHR 0xE2, CHR 0x80, CHR 0x86], [CHR 0xE2, CHR 0x80, CHR 0x87],
      [CHR 0xE2, CHR 0x80, CHR 0x88], [CHR 0xE2, CHR 0x80, CHR 0x89],
      [CHR 0xE2, CHR 0x80, CHR 0x8A], [CHR 0xE2, CHR 0x80, CHR 0xA8],
      [CHR 0xE2, CHR 0x80, CHR 0xA9], [CHR 0xE2, CHR 0x80, CHR 0xAF],
      [CHR 0xE2, CHR 0x81, CHR 0x9F], [CHR 0xE3, CHR 0x80, CHR 0x80],
      [CHR 0xEF, CHR 0xBB, CHR 0xBF]]"

text \<open>\<open>match_len ws s\<close>: the length of the first member of \<open>ws\<close> that \<open>s\<close> starts with, or 0.\<close>

definition match_len :: "string list \<Rightarrow> string \<Rightarrow> nat" where
  "match_len ws s = (case List.find (startsWith s) ws of Some w \<Rightarrow> length w | None \<Rightarrow> 0)"

function strip :: "string list \<Rightarrow> string \<Rightarrow> string" where
  "strip ws s = (if match_len ws s = 0 \<or> s = [] then s else strip ws (drop (match_len ws s) s))"
  by pat_completeness auto
termination
  by (relation "measure (\<lambda>(ws, s). length s)") auto

declare strip.simps [simp del]

definition trimStart :: "string \<Rightarrow> string" where
  "trimStart s = strip ws_seqs s"

definition trimEnd :: "string \<Rightarrow> string" where
  "trimEnd s = rev (strip (map rev ws_seqs) (rev s))"

text \<open>\<open>String.prototype.trim\<close>.\<close>

definition str_trim :: "string \<Rightarrow> string" where
  "str_trim s = trimEnd (trimStart s)"

text \<open>
  The \<open>length\<close> of a string counts UTF-16 code units: one for each character of one to three
  UTF-8 bytes, two for each character of four bytes.
\<close>

definition utf16_length :: "string \<Rightarrow> nat" where
  "utf16_length s =
     length (filter (\<lambda>c. of_char c < (0x80 :: nat) \<or> (0xC0 :: nat) \<le> of_char c) s)
     + length (filter (\<lambda>c. (0xF0 :: nat) \<le> of_char c) s)"

section \<open>Numbers\<close>

text \<open>
  Rounding a rational to the nearest double, ties to even (IEEE 754 binary64): 53 bits of
  precision, least exponent \<open>-1074\<close>, overflow to infinity from \<open>2^1024\<close>.
\<close>

function ilog2 :: "int \<Rightarrow> int" where
  "ilog2 n = (if n < 2 then 0 else 1 + ilog2 (n div 2))"
  by pat_completeness auto
termination
  by (relation "measure nat") auto

declare ilog2.simps [simp del]

function ilog10 :: "int \<Rightarrow> int" where
  "ilog10 n = (if n < 10 then 0 else 1 + ilog10 (n div 10))"
  by pat_completeness auto
termination
  by (relation "measure nat") auto

declare ilog10.simps [simp del]

definition pow2 :: "int \<Rightarrow> rat" where
  "pow2 z = (if 0 \<le> z then 2 ^ nat z else 1 / 2 ^ nat (- z))"

definition pow10 :: "int \<Rightarrow> rat" where
  "pow10 z = (if 0 \<le> z then 10 ^ nat z else 1 / 10 ^ nat (- z))"

text \<open>\<open>bin_exp q\<close>, for \<open>q > 0\<close>: the integer \<open>e\<close> with \<open>2^e \<le> q < 2^(e+1)\<close>.\<close>

definition bin_exp :: "rat \<Rightarrow> int" where
  "bin_exp q =
     (if 1 \<le> q then ilog2 \<lfloor>q\<rfloor>
      else (let l = ilog2 \<lfloor>1 / q\<rfloor>
            in if q = pow2 (- l) then - l else - l - 1))"

text \<open>\<open>dec_exp q\<close>, for \<open>q > 0\<close>: the integer \<open>n\<close> with \<open>10^(n-1) \<le> q < 10^n\<close>.\<close>

definition dec_exp :: "rat \<Rightarrow> int" where
  "dec_exp q =
     (if 1 \<le> q then ilog10 \<lfloor>q\<rfloor> + 1
      else (let l = ilog10 \<lfloor>1 / q\<rfloor>
            in if q = pow10 (- l) then 1 - l else - l))"

definition round_half_even :: "rat \<Rightarrow> int" where
  "round_half_even q =
     (let f = \<lfloor>q\<rfloor>; d = q - of_int f
      in if d < 1 / 2 then f else if 1 / 2 < d then f + 1 else if even f then f else f + 1)"

definition round_pos :: "rat \<Rightarrow> rat" where
  "round_pos q =
     (let p = max (bin_exp q - 52) (- 1074)
      in of_int (round_half_even (q / pow2 p)) * pow2 p)"

text \<open>A rounded magnitude \<open>r \<ge> 0\<close> is in the range of the finite doubles when \<open>r < 2^1024\<close>.\<close>

definition finite_range :: "rat \<Rightarrow> bool" where
  "finite_range r = (r = 0 \<or> bin_exp r < 1024)"

definition round_double :: "rat \<Rightarrow> jsnum" where
  "round_double q =
     (if q = 0 then Fin 0
      else if 0 < q then (if finite_range (round_pos q) then Fin (round_pos q) else PosInf)
      else (if finite_range (round_pos (- q)) then Fin (- round_pos (- q)) else NegInf))"

text \<open>The rationals that are doubles: the values a \<open>Fin\<close> of a real run carries.\<close>

definition is_double :: "rat \<Rightarrow> bool" where
  "is_double q = (round_double q = Fin q)"

subsection \<open>\<open>Number::toString\<close>\<close>

definition digit_char :: "int \<Rightarrow> char" where
  "digit_char d = ''0123456789'' ! nat d"

text \<open>The decimal digits of a non-negative integer.\<close>

function digits10 :: "int \<Rightarrow> string" where
  "digits10 n =
     (if n < 10 then [digit_char n] else digits10 (n div 10) @ [digit_char (n mod 10)])"
  by pat_completeness auto
termination
  by (relation "measure nat") auto

declare digits10.simps [simp del]

text \<open>
  ECMAScript writes a finite positive number \<open>q\<close> with the integers \<open>n\<close>, \<open>k\<close>, \<open>s\<close> such
  that \<open>k \<ge> 1\<close>, \<open>10^(k-1) \<le> s < 10^k\<close>, \<open>s * 10^(n-k)\<close> rounds to \<open>q\<close>, and \<open>k\<close> is as small as
  possible; among the \<open>s\<close> of that length the one nearest to \<open>q\<close>, the even one on a tie.
  \<open>cand q k\<close> is that choice among the two \<open>k\<close>-digit neighbours of \<open>q\<close>, if either rounds to
  \<open>q\<close>. Seventeen digits always suffice for a double; the last case of \<open>shortest\<close> is reached
  only by rationals that are not doubles.
\<close>

definition cand :: "rat \<Rightarrow> int \<Rightarrow> (int \<times> int) option" where
  "cand q k =
     (let n = dec_exp q; u = pow10 (n - k); lo = \<lfloor>q / u\<rfloor>; hi = lo + 1;
          clo = (lo, n);
          chi = (if hi < 10 ^ nat k then (hi, n) else (10 ^ nat (k - 1), n + 1));
          vlo = (round_double (of_int lo * u) = Fin q);
          vhi = (round_double (of_int hi * u) = Fin q);
          dlo = q - of_int lo * u; dhi = of_int hi * u - q
      in if vlo \<and> vhi
         then Some (if dlo < dhi then clo else if dhi < dlo then chi
                    else if even lo then clo else chi)
         else if vlo then Some clo
         else if vhi then Some chi
         else None)"

definition shortest :: "rat \<Rightarrow> int \<times> int \<times> int" where
  "shortest q =
     (case List.find (\<lambda>k. cand q k \<noteq> None) [1..17] of
        Some k \<Rightarrow> (case cand q k of Some (s, n) \<Rightarrow> (s, n, k) | None \<Rightarrow> (0, 0, k))
      | None \<Rightarrow> (\<lfloor>q / pow10 (dec_exp q - 17)\<rfloor>, dec_exp q, 17))"

definition pos_to_string :: "rat \<Rightarrow> string" where
  "pos_to_string q =
     (case shortest q of (s, n, k) \<Rightarrow>
        (let ds = digits10 s;
             es = (if 0 < n - 1 then ''+'' else ''-'') @ digits10 \<bar>n - 1\<bar>
         in if k \<le> n \<and> n \<le> 21 then ds @ replicate (nat (n - k)) CHR ''0''
            else if 0 < n \<and> n \<le> 21 then take (nat n) ds @ ''.'' @ drop (nat n) ds
            else if - 6 < n \<and> n \<le> 0 then ''0.'' @ replicate (nat (- n)) CHR ''0'' @ ds
            else if k = 1 then ds @ ''e'' @ es
            else take 1 ds @ ''.'' @ drop 1 ds @ ''e'' @ es))"

fun num_to_string :: "jsnum \<Rightarrow> string" where
  "num_to_string NaN = ''NaN''"
| "num_to_string PosInf = ''Infinity''"
| "num_to_string NegInf = ''-Infinity''"
| "num_to_string (Fin q) =
     (if q = 0 then ''0'' else if q < 0 then ''-'' @ pos_to_string (- q) else pos_to_string q)"

subsection \<open>\<open>Number.prototype.toFixed(2)\<close> and \<open>Number.isInteger\<close>\<close>

text \<open>
  \<open>toFixed(2)\<close>: a value that is not finite or has magnitude at least \<open>10^21\<close> is written as by
  \<open>Number::toString\<close>; otherwise the integer \<open>n\<close> nearest to \<open>100 * |q|\<close> (the larger on a tie)
  is written with at least three digits and a point before the last two, after the sign.
\<close>

fun toFixed2 :: "jsnum \<Rightarrow> string" where
  "toFixed2 (Fin q) =
     (if 10 ^ 21 \<le> \<bar>q\<bar> then num_to_string (Fin q)
      else (let m = digits10 \<lfloor>\<bar>q\<bar> * 100 + 1 / 2\<rfloor>;
                m' = replicate (3 - length m) CHR ''0'' @ m
            in (if q < 0 then ''-'' else [])
               @ take (length m' - 2) m' @ ''.'' @ drop (length m' - 2) m'))"
| "toFixed2 v = num_to_string v"

fun isInteger :: "jsnum \<Rightarrow> bool" where
  "isInteger (Fin q) = (of_int \<lfloor>q\<rfloor> = q)"
| "isInteger _ = False"

subsection \<open>\<open>StringToNumber\<close>\<close>

definition digit_values :: "(char \<times> int) list" where
  "digit_values =
     [(CHR ''0'', 0), (CHR ''1'', 1), (CHR ''2'', 2), (CHR ''3'', 3), (CHR ''4'', 4),
      (CHR ''5'', 5), (CHR ''6'', 6), (CHR ''7'', 7), (CHR ''8'', 8), (CHR ''9'', 9),
      (CHR ''a'', 10), (CHR ''b'', 11), (CHR ''c'', 12), (CHR ''d'', 13), (CHR ''e'', 14),
      (CHR ''f'', 15), (CHR ''A'', 10), (CHR ''B'', 11), (CHR ''C'', 12), (CHR ''D'', 13),
      (CHR ''E'', 14), (CHR ''F'', 15)]"

definition digit_in :: "int \<Rightarrow> char \<Rightarrow> int option" where
  "digit_in r c =
     (case map_of digit_values c of
        Some d \<Rightarrow> (if d < r then Some d else None)
      | None \<Rightarrow> None)"

text \<open>The value of a non-empty string of digits in radix \<open>r\<close>.\<close>

definition radix_val :: "int \<Rightarrow> string \<Rightarrow> int option" where
  "radix_val r ds =
     (if ds = [] \<or> (\<exists>c\<in>set ds. digit_in r c = None) then None
      else Some (foldl (\<lambda>a c. a * r + (case digit_in r c of Some d \<Rightarrow> d | None \<Rightarrow> 0)) 0 ds))"

definition is_digit :: "char \<Rightarrow> bool" where
  "is_digit c = (digit_in 10 c \<noteq> None)"

text \<open>An optional \<open>ExponentPart\<close> that ends the string.\<close>

definition parse_exponent :: "string \<Rightarrow> int option" where
  "parse_exponent r =
     (if r = [] then Some 0
      else if startsWith r ''e'' \<or> startsWith r ''E''
      then (let t = tl r;
                neg = startsWith t ''-'';
                ds = (if neg \<or> startsWith t ''+'' then tl t else t)
            in case radix_val 10 ds of
                 None \<Rightarrow> None
               | Some e \<Rightarrow> Some (if neg then - e else e))
      else None)"

text \<open>\<open>StrUnsignedDecimalLiteral\<close> other than \<open>Infinity\<close>: its exact decimal value.\<close>

definition parse_unsigned :: "string \<Rightarrow> rat option" where
  "parse_unsigned s =
     (let ip = takeWhile is_digit s; r1 = dropWhile is_digit s;
          dot = startsWith r1 ''.'';
          fp = (if dot then takeWhile is_digit (tl r1) else []);
          r2 = (if dot then dropWhile is_digit (tl r1) else r1)
      in if ip = [] \<and> fp = [] then None
         else case parse_exponent r2 of
                None \<Rightarrow> None
              | Some e \<Rightarrow>
                  (case radix_val 10 (ip @ fp) of
                     None \<Rightarrow> None
                   | Some n \<Rightarrow> Some (of_int n * pow10 (e - int (length fp)))))"

definition parse_decimal :: "string \<Rightarrow> jsnum option" where
  "parse_decimal s =
     (let neg = startsWith s ''-'';
          u = (if neg \<or> startsWith s ''+'' then tl s else s)
      in if u = ''Infinity'' then Some (if neg then NegInf else PosInf)
         else case parse_unsigned u of
                None \<Rightarrow> None
              | Some q \<Rightarrow> Some (round_double (if neg then - q else q)))"

definition parse_nondecimal :: "string \<Rightarrow> jsnum option" where
  "parse_nondecimal s =
     (let p = take 2 s;
          r = (if p = ''0x'' \<or> p = ''0X'' then Some 16
               else if p = ''0o'' \<or> p = ''0O'' then Some 8
               else if p = ''0b'' \<or> p = ''0B'' then Some 2
               else None)
      in case r of
           None \<Rightarrow> None
         | Some r \<Rightarrow>
             (case radix_val r (drop 2 s) of
                None \<Rightarrow> None
              | Some n \<Rightarrow> Some (round_double (of_int n))))"

text \<open>
  \<open>Number(s)\<close> for a string: white space is trimmed; the empty string is \<open>0\<close>; a hexadecimal,
  octal or binary integer literal or a signed decimal literal is rounded to the nearest double;
  anything else is \<open>NaN\<close>.
\<close>

definition string_to_number :: "string \<Rightarrow> jsnum" where
  "string_to_number s =
     (let t = str_trim s
      in if t = [] then Fin 0
         else case parse_nondecimal t of
                Some v \<Rightarrow> v
              | None \<Rightarrow> (case parse_decimal t of Some v \<Rightarrow> v | None \<Rightarrow> NaN))"

section \<open>Coercions and operators\<close>

fun truthy :: "js \<Rightarrow> bool" where
  "truthy Undefined = False"
| "truthy Null = False"
| "truthy (Bool b) = b"
| "truthy (Num NaN) = False"
| "truthy (Num (Fin q)) = (q \<noteq> 0)"
| "truthy (Num v) = True"
| "truthy (Str s) = (s \<noteq> [])"
| "truthy (Arr xs) = True"
| "truthy (Obj ps) = True"

text \<open>\<open>a ?? b\<close>, \<open>a || b\<close>. The operands of this program are property reads of an object and
  literals, whose evaluation has no effect, so both operands are passed as values.\<close>

definition coalesce :: "js \<Rightarrow> js \<Rightarrow> js" where
  "coalesce a b = (if a = Undefined \<or> a = Null then b else a)"

definition js_or :: "js \<Rightarrow> js \<Rightarrow> js" where
  "js_or a b = (if truthy a then a else b)"

text \<open>
  \<open>ToString\<close>. An array is joined with commas, \<open>null\<close> and \<open>undefined\<close> elements as the empty
  string. A parsed object has no callable property: with an own \<open>toString\<close> key the
  conversion finds no method that returns a primitive and throws, without one
  \<open>Object.prototype.toString\<close> answers.
\<close>

fun to_string :: "js \<Rightarrow> error + string"
  and join_items :: "js list \<Rightarrow> error + string" where
  "to_string Undefined = Inr ''undefined''"
| "to_string Null = Inr ''null''"
| "to_string (Bool b) = Inr (if b then ''true'' else ''false'')"
| "to_string (Num v) = Inr (num_to_string v)"
| "to_string (Str s) = Inr s"
| "to_string (Arr xs) = join_items xs"
| "to_string (Obj ps) =
     (if ''toString'' \<in> fst ` set ps then Inl TypeError else Inr ''[object Object]'')"
| "join_items [] = Inr []"
| "join_items (x # xs) =
     (case (if x = Undefined \<or> x = Null then Inr [] else to_string x) of
        Inl e \<Rightarrow> Inl e
      | Inr s \<Rightarrow>
          (if xs = [] then Inr s
           else case join_items xs of
                  Inl e \<Rightarrow> Inl e
                | Inr r \<Rightarrow> Inr (s @ '','' @ r)))"

text \<open>\<open>ToNumber\<close> (the function \<open>Number\<close>): arrays and objects go through their string.\<close>

fun to_number :: "js \<Rightarrow> error + jsnum" where
  "to_number Undefined = Inr NaN"
| "to_number Null = Inr (Fin 0)"
| "to_number (Bool b) = Inr (Fin (if b then 1 else 0))"
| "to_number (Num v) = Inr v"
| "to_number (Str s) = Inr (string_to_number s)"
| "to_number v =
     (case to_string v of
        Inl e \<Rightarrow> Inl e
      | Inr s \<Rightarrow> Inr (string_to_number s))"

text \<open>
  Reading a property. The program reads only \<open>length\<close> and the keys of a tool, none of which
  the prototypes of objects, strings, arrays, numbers or booleans define, so a key other than
  an own property reads as \<open>undefined\<close>. Reading from \<open>null\<close> or \<open>undefined\<close> throws.
\<close>

text \<open>The own property \<open>k\<close> of an object with the properties \<open>ps\<close>.\<close>

definition field :: "(string \<times> js) list \<Rightarrow> string \<Rightarrow> js" where
  "field ps k = (case map_of ps k of Some v \<Rightarrow> v | None \<Rightarrow> Undefined)"

fun get_prop :: "js \<Rightarrow> string \<Rightarrow> error + js" where
  "get_prop Undefined k = Inl TypeError"
| "get_prop Null k = Inl TypeError"
| "get_prop (Obj ps) k = Inr (field ps k)"
| "get_prop (Str s) k =
     Inr (if k = ''length'' then Num (Fin (of_nat (utf16_length s))) else Undefined)"
| "get_prop (Arr xs) k =
     Inr (if k = ''length'' then Num (Fin (of_nat (length xs))) else Undefined)"
| "get_prop v k = Inr Undefined"

section \<open>Video URL normalisation\<close>

text \<open>
  The regular expression \<open>/(?:youtu\.be\/|v=)([^&?/]+)/\<close>. \<open>video_id_at s\<close> is the capture
  group of a match that starts at the first character of \<open>s\<close>: one of the two literals, then
  the longest non-empty run of characters other than \<open>&\<close>, \<open>?\<close> and \<open>/\<close>.
  \<open>match_video_id\<close> is \<open>String.prototype.match\<close> with that expression: the leftmost match.
\<close>

definition id_char :: "char \<Rightarrow> bool" where
  "id_char c = (c \<noteq> CHR ''&'' \<and> c \<noteq> CHR ''?'' \<and> c \<noteq> CHR ''/'')"

definition video_id_at :: "string \<Rightarrow> string option" where
  "video_id_at s =
     (let rest = (if startsWith s ''youtu.be/'' then Some (drop 9 s)
                  else if startsWith s ''v='' then Some (drop 2 s)
                  else None)
      in case rest of
           None \<Rightarrow> None
         | Some r \<Rightarrow> (if takeWhile id_char r = [] then None else Some (takeWhile id_char r)))"

fun match_video_id :: "string \<Rightarrow> string option" where
  "match_video_id [] = None"
| "match_video_id (c # cs) =
     (case video_id_at (c # cs) of
        Some i \<Rightarrow> Some i
      | None \<Rightarrow> match_video_id cs)"

text \<open>
  \<open>getVideoEmbedUrl\<close>. On an array \<open>url.includes\<close> is \<open>Array.prototype.includes\<close> and
  \<open>url.match\<close> is undefined; on every other non-string value \<open>url.includes\<close> is not a
  function.
\<close>

fun getVideoEmbedUrl :: "js \<Rightarrow> error + js" where
  "getVideoEmbedUrl (Str url) =
     (if str_includes url ''youtube.com/embed/'' then Inr (Str url)
      else case match_video_id url of
             Some i \<Rightarrow> Inr (Str (''https://www.youtube.com/embed/'' @ i))
           | None \<Rightarrow> Inr (Str url))"
| "getVideoEmbedUrl (Arr xs) =
     (if Str ''youtube.com/embed/'' \<in> set xs then Inr (Arr xs) else Inl TypeError)"
| "getVideoEmbedUrl _ = Inl TypeError"


section \<open>Price formatting\<close>

definition formatPrice :: "jsnum \<Rightarrow> string" where
  "formatPrice v = (if isInteger v then num_to_string v else toFixed2 v)"

text \<open>\<open>Number(tool.price_eur ?? tool.price ?? 0)\<close>.\<close>

definition price_value :: "js \<Rightarrow> error + jsnum" where
  "price_value tool =
     bnd (get_prop tool ''price_eur'') (\<lambda>price_eur.
     bnd (get_prop tool ''price'') (\<lambda>price.
       to_number (coalesce (coalesce price_eur price) (Num (Fin 0)))))"

definition getPriceLabel :: "js \<Rightarrow> error + string" where
  "getPriceLabel tool =
     bnd (price_value tool) (\<lambda>v.
       if \<not> truthy (Num v) then Inr ''Free'' else Inr (formatPrice v @ '' EUR''))"

section \<open>List rendering\<close>

text \<open>\<open>items.map((item) => `<li>${item}</li>`).join('')\<close>.\<close>

fun li_items :: "js list \<Rightarrow> error + string" where
  "li_items [] = Inr []"
| "li_items (x # xs) =
     (case to_string x of
        Inl e \<Rightarrow> Inl e
      | Inr s \<Rightarrow>
          (case li_items xs of
             Inl e \<Rightarrow> Inl e
           | Inr r \<Rightarrow> Inr (''<li>'' @ s @ ''</li>'' @ r)))"

fun renderList :: "js \<Rightarrow> string \<Rightarrow> error + string" where
  "renderList (Arr xs) fallback =
     (if xs \<noteq> []
      then (case li_items xs of
              Inl e \<Rightarrow> Inl e
            | Inr r \<Rightarrow> Inr (''<ul>'' @ r @ ''</ul>''))
      else Inr (''<p>'' @ fallback @ ''</p>''))"
| "renderList (Str s) fallback =
     (if str_trim s \<noteq> [] then Inr (''<p>'' @ s @ ''</p>'')
      else Inr (''<p>'' @ fallback @ ''</p>''))"
| "renderList v fallback = Inr (''<p>'' @ fallback @ ''</p>'')"

section \<open>The catalogue request\<close>

text \<open>
  The outcome of \<open>fetch('data/tools.json')\<close> followed by \<open>response.json()\<close>: the request is
  rejected, or it answers with \<open>ok\<close>, a status and a body that \<open>json()\<close> rejects or parses.
\<close>

datatype fetch_outcome =
    Rejected error
  | Response bool nat "error + js"

fun isArray :: "js \<Rightarrow> bool" where
  "isArray (Arr xs) = True"
| "isArray v = False"

fun elements :: "js \<Rightarrow> js list" where
  "elements (Arr xs) = xs"
| "elements v = []"

text \<open>The \<open>try\<close> block of \<open>fetchTools\<close>.\<close>

fun fetchTools_try :: "fetch_outcome \<Rightarrow> error + js list" where
  "fetchTools_try (Rejected e) = Inl e"
| "fetchTools_try (Response ok status body) =
     (if \<not> ok then Inl (FailedToLoad status)
      else case body of
             Inl e \<Rightarrow> Inl e
           | Inr tools \<Rightarrow> Inr (if isArray tools then elements tools else []))"

text \<open>
  \<open>fetchTools\<close> with its \<open>catch\<close>: the result of the promise (\<open>Inl\<close> a rejection) and the
  console after \<open>console.error\<close>.
\<close>

definition fetchTools :: "fetch_outcome \<Rightarrow> error list \<Rightarrow> (error + js list) \<times> error list" where
  "fetchTools r console =
     (case fetchTools_try r of
        Inr tools \<Rightarrow> (Inr tools, console)
      | Inl err \<Rightarrow> (Inr [], console @ [err]))"

section \<open>The listing page\<close>

datatype node =
    Element string "(string \<times> string) list" "node list"
  | Text string

text \<open>
  Assigning \<open>textContent\<close>: \<open>null\<close> and \<open>undefined\<close> clear the element, any other value is
  converted to a string, and a non-empty string becomes the only child.
\<close>

definition set_textContent :: "js \<Rightarrow> error + node list" where
  "set_textContent v =
     (if v = Undefined \<or> v = Null then Inr []
      else case to_string v of
             Inl e \<Rightarrow> Inl e
           | Inr s \<Rightarrow> Inr (if s = [] then [] else [Text s]))"

text \<open>
  \<open>encodeURIComponent\<close>: every byte of the UTF-8 form other than a letter, a digit or one of
  \<open>- _ . ! ~ * ' ( )\<close> is written as \<open>%\<close> and two upper-case hexadecimal digits.
\<close>

definition unreserved :: "char \<Rightarrow> bool" where
  "unreserved c =
     (c \<in> set (''abcdefghijklmnopqrstuvwxyzABCDEFGHIJKLMNOPQRSTUVWXYZ0123456789''
                @ ''-_.!~*'()''))"

definition hex_upper :: "nat \<Rightarrow> char" where
  "hex_upper n = ''0123456789ABCDEF'' ! n"

definition percent_encode :: "char \<Rightarrow> string" where
  "percent_encode c =
     [CHR ''%'', hex_upper (of_char c div 16), hex_upper (of_char c mod 16)]"

definition encodeURIComponent :: "string \<Rightarrow> string" where
  "encodeURIComponent s = concat (map (\<lambda>c. if unreserved c then [c] else percent_encode c) s)"

definition getMediaElement :: "js \<Rightarrow> error + node option" where
  "getMediaElement tool =
     bnd (get_prop tool ''image'') (\<lambda>img.
       if \<not> truthy img then Inr None
       else
         bnd (to_string img) (\<lambda>file.
         bnd (get_prop tool ''name'') (\<lambda>name.
         bnd (if truthy name then bnd (to_string name) (\<lambda>n. Inr (n @ '' screenshot''))
              else Inr ''tool screenshot'') (\<lambda>alt.
           Inr (Some (Element ''div'' [(''class'', ''tool-media'')]
                  [Element ''img''
                     [(''class'', ''tool-media-image''), (''src'', ''assets/'' @ file),
                      (''alt'', alt), (''loading'', ''lazy'')] []]))))))"

text \<open>The card that the callback of \<open>tools.forEach\<close> builds for one tool.\<close>

definition tool_card :: "js \<Rightarrow> error + node" where
  "tool_card tool =
     bnd (get_prop tool ''slug'') (\<lambda>slug.
     bnd (to_string slug) (\<lambda>s.
     bnd (getMediaElement tool) (\<lambda>media.
     bnd (get_prop tool ''name'') (\<lambda>name.
     bnd (set_textContent name) (\<lambda>title.
     bnd (get_prop tool ''tagline'') (\<lambda>tagline.
     bnd (set_textContent (js_or tagline (Str []))) (\<lambda>tag.
     bnd (getPriceLabel tool) (\<lambda>price.
       Inr (Element ''a''
              [(''class'', ''tool-card''), (''href'', ''tool.html?slug='' @ encodeURIComponent s)]
              ((case media of None \<Rightarrow> [] | Some m \<Rightarrow> [m])
               @ [Element ''div'' [(''class'', ''tool-card-content'')]
                    [Element ''h2'' [] title,
                     Element ''p'' [(''class'', ''tool-tagline'')] tag,
                     Element ''p'' [(''class'', ''tool-price''), (''aria-hidden'', ''true'')]
                       [Text price]]]))))))))))"

text \<open>\<open>tools.forEach\<close>: the cards are appended one by one, and a throw ends the loop.\<close>

fun append_cards :: "node list \<Rightarrow> js list \<Rightarrow> (error + unit) \<times> node list" where
  "append_cards children [] = (Inr (), children)"
| "append_cards children (tool # tools) =
     (case tool_card tool of
        Inl e \<Rightarrow> (Inl e, children)
      | Inr a \<Rightarrow> append_cards (children @ [a]) tools)"

text \<open>
  The page: the children of \<open>#tools-container\<close> and the state of \<open>#tool-main\<close> (each \<open>None\<close>
  when the page has no such element), \<open>window.location.search\<close> and the console. Of the main
  element the model keeps the markup last assigned to \<open>innerHTML\<close>, the \<open>hidden\<close> property of
  the purchase notice that this markup declares (\<open>None\<close> when it declares none) and whether the
  click listener is registered on the purchase button. The two selectors are resolved on the
  elements of the template; markup inside the text of a tool is not parsed.
\<close>

record main_el =
  markup :: string
  buy_notice_hidden :: "bool option"
  buy_click_listener :: bool

record page =
  tools_container :: "node list option"
  tool_main :: "main_el option"
  search :: string
  console :: "error list"

definition no_tools_msg :: node where
  "no_tools_msg =
     Element ''p'' [(''class'', ''no-tools'')] [Text ''No tools available yet. Check back soon!'']"

definition loadTools :: "page \<Rightarrow> fetch_outcome \<Rightarrow> (error + unit) \<times> page" where
  "loadTools pg r =
     (case tools_container pg of
        None \<Rightarrow> (Inr (), pg)
      | Some old \<Rightarrow>
          (case fetchTools r (console pg) of
             (Inl e, con) \<Rightarrow> (Inl e, pg\<lparr>tools_container := Some [], console := con\<rparr>)
           | (Inr tools, con) \<Rightarrow>
               (if length tools = 0
                then (Inr (), pg\<lparr>tools_container := Some [no_tools_msg], console := con\<rparr>)
                else (case append_cards [] tools of
                        (res, children) \<Rightarrow>
                          (res, pg\<lparr>tools_container := Some children, console := con\<rparr>)))))"

section \<open>The detail page\<close>

text \<open>
  \<open>new URLSearchParams(window.location.search).get('slug')\<close>: a leading \<open>?\<close> is dropped, the
  rest is split at \<open>&\<close>, each non-empty piece at its first \<open>=\<close>; in name and value \<open>+\<close> becomes
  a space and \<open>%XX\<close> the byte \<open>XX\<close>; \<open>get\<close> returns the value of the first pair with the name,
  or \<open>null\<close>. The bytes are the UTF-8 form of the result (the replacement of malformed
  sequences by U+FFFD is not modelled).
\<close>

fun split_on :: "char \<Rightarrow> string \<Rightarrow> string list" where
  "split_on d [] = [[]]"
| "split_on d (c # cs) =
     (if c = d then [] # split_on d cs
      else (case split_on d cs of
              p # ps \<Rightarrow> (c # p) # ps
            | [] \<Rightarrow> [[c]]))"

fun percent_decode :: "string \<Rightarrow> string" where
  "percent_decode [] = []"
| "percent_decode [c] = [c]"
| "percent_decode [c, a] = c # percent_decode [a]"
| "percent_decode (c # a # b # cs) =
     (if c = CHR ''%'' \<and> digit_in 16 a \<noteq> None \<and> digit_in 16 b \<noteq> None
      then char_of (16 * (case digit_in 16 a of Some x \<Rightarrow> x | None \<Rightarrow> 0)
                    + (case digit_in 16 b of Some y \<Rightarrow> y | None \<Rightarrow> 0))
           # percent_decode cs
      else c # percent_decode (a # b # cs))"

definition form_decode :: "string \<Rightarrow> string" where
  "form_decode s = percent_decode (map (\<lambda>c. if c = CHR ''+'' then CHR '' '' else c) s)"

definition parse_pair :: "string \<Rightarrow> string \<times> string" where
  "parse_pair p =
     (let name = takeWhile (\<lambda>c. c \<noteq> CHR ''='') p
      in (form_decode name, form_decode (drop (length name + 1) p)))"

definition URLSearchParams :: "string \<Rightarrow> (string \<times> string) list" where
  "URLSearchParams init =
     map parse_pair
       (filter (\<lambda>p. p \<noteq> [])
          (split_on CHR ''&'' (if startsWith init ''?'' then tl init else init)))"

definition params_get :: "(string \<times> string) list \<Rightarrow> string \<Rightarrow> js" where
  "params_get params k = (case map_of params k of Some v \<Rightarrow> Str v | None \<Rightarrow> Null)"


definition nl :: string where
  "nl = [CHR 0x0A]"

text \<open>The euro sign, U+20AC.\<close>

definition euro :: string where
  "euro = [CHR 0xE2, CHR 0x82, CHR 0xAC]"

definition priceLine :: "jsnum \<Rightarrow> string" where
  \<open>priceLine priceValue =
     (if truthy (Num priceValue)
      then ''<p class="price">Price: '' @ euro @ formatPrice priceValue @ ''</p>''
      else ''<p class="price">Free</p>'')\<close>

definition buyLabel :: "jsnum \<Rightarrow> string" where
  "buyLabel priceValue =
     (if truthy (Num priceValue) then ''Buy ('' @ euro @ formatPrice priceValue @ '')''
      else ''Buy'')"

definition video_section :: "js \<Rightarrow> error + string" where
  \<open>video_section videoUrl =
     (if truthy videoUrl
      then bnd (getVideoEmbedUrl videoUrl) (\<lambda>u.
           bnd (to_string u) (\<lambda>src.
             Inr (''<div class="video-wrapper"><iframe src="'' @ src
                  @ ''" allowfullscreen></iframe></div>'')))
      else Inr ''<p><em>Video coming soon.</em></p>'')\<close>

text \<open>
  The features: \<open>tool.features && tool.features.length\<close> decides, and \<open>map\<close> exists on arrays
  only.
\<close>

definition features_list :: "js \<Rightarrow> error + string" where
  "features_list tool =
     bnd (get_prop tool ''features'') (\<lambda>features.
     bnd (if truthy features then get_prop features ''length'' else Inr features) (\<lambda>some.
       if truthy some
       then (case features of
               Arr fs \<Rightarrow> bnd (li_items fs) (\<lambda>r. Inr (''<ul>'' @ r @ ''</ul>''))
             | _ \<Rightarrow> Inl TypeError)
       else Inr ''<p>No features listed.</p>''))"

definition action_link :: "js \<Rightarrow> string \<Rightarrow> error + string" where
  \<open>action_link url label =
     (if truthy url
      then bnd (to_string url) (\<lambda>u.
             Inr (''<a href="'' @ u @ ''" target="_blank">'' @ label @ ''</a>''))
      else Inr [])\<close>

text \<open>The template of the detail view, in three parts, with its slots as parameters.\<close>

definition detail_head :: "string \<Rightarrow> string \<Rightarrow> string \<Rightarrow> string" where
  \<open>detail_head name tagline description =
     nl @ ''    <h1>'' @ name @ ''</h1>'' @ nl @ ''    <p class="tagline">'' @ tagline @
     ''</p>'' @ nl @ ''    <p>'' @ description @ ''</p>''\<close>

definition detail_sections :: "string \<Rightarrow> string \<Rightarrow> string \<Rightarrow> string \<Rightarrow> string" where
  \<open>detail_sections videoSection featuresList forWhoList notForList =
     nl @ ''    '' @ videoSection @ nl @ ''    <h2>Features</h2>'' @ nl @ ''    '' @
     featuresList @ nl @ ''    <h2>Who it's for</h2>'' @ nl @ ''    '' @ forWhoList @ nl @
     ''    <h2>Not for</h2>'' @ nl @ ''    '' @ notForList\<close>

definition detail_actions ::
  "string \<Rightarrow> string \<Rightarrow> string \<Rightarrow> string \<Rightarrow> string \<Rightarrow> string" where
  \<open>detail_actions price buy watchLink releaseLink repoLink =
     nl @ ''    '' @ price @ nl @ ''    <div class="actions">'' @ nl @
     ''      <button type="button" class="buy-button" data-buy="placeholder">'' @ buy @
     ''</button>'' @ nl @ ''      <div class="action-links">'' @ nl @ ''        '' @
     watchLink @ nl @ ''        '' @ releaseLink @ nl @ ''        '' @ repoLink @ nl @
     ''      </div>'' @ nl @
     ''      <p class="buy-notice" hidden>Payments are not enabled yet. This will be available when thalem.space launches.</p>'' @
     nl @ ''    </div>'' @ nl @ ''  ''\<close>

text \<open>The markup that \<open>loadToolDetail\<close> builds for the tool it found.\<close>

definition detail_markup :: "js \<Rightarrow> error + string" where
  "detail_markup tool =
     bnd (get_prop tool ''video_url'') (\<lambda>video_url.
     bnd (get_prop tool ''videoUrl'') (\<lambda>videoUrl_alias.
     bnd (video_section (js_or video_url videoUrl_alias)) (\<lambda>videoSection.
     bnd (features_list tool) (\<lambda>featuresList.
     bnd (price_value tool) (\<lambda>priceValue.
     bnd (get_prop tool ''repo_url'') (\<lambda>repo_url.
     bnd (get_prop tool ''repoUrl'') (\<lambda>repoUrl_alias.
     bnd (get_prop tool ''release_url'') (\<lambda>release_url.
     bnd (get_prop tool ''releaseUrl'') (\<lambda>releaseUrl_alias.
     bnd (get_prop tool ''for_who'') (\<lambda>for_who.
     bnd (get_prop tool ''forWho'') (\<lambda>forWho.
     bnd (renderList (js_or for_who forWho) ''No audience listed.'') (\<lambda>forWhoList.
     bnd (get_prop tool ''not_for'') (\<lambda>not_for.
     bnd (get_prop tool ''notFor'') (\<lambda>notFor.
     bnd (renderList (js_or not_for notFor) ''No exclusions listed.'') (\<lambda>notForList.
     bnd (get_prop tool ''name'') (\<lambda>name.
     bnd (to_string name) (\<lambda>name_text.
     bnd (get_prop tool ''tagline'') (\<lambda>tagline.
     bnd (to_string (js_or tagline (Str []))) (\<lambda>tagline_text.
     bnd (get_prop tool ''description'') (\<lambda>description.
     bnd (to_string (js_or description (Str []))) (\<lambda>description_text.
     bnd (action_link (js_or (js_or video_url videoUrl_alias) (Str [])) ''Watch the demo'')
       (\<lambda>watchLink.
     bnd (action_link (js_or release_url releaseUrl_alias) ''View releases'') (\<lambda>releaseLink.
     bnd (action_link (js_or repo_url repoUrl_alias) ''View source'') (\<lambda>repoLink.
       Inr (detail_head name_text tagline_text description_text
            @ detail_sections videoSection featuresList forWhoList notForList
            @ detail_actions (priceLine priceValue) (buyLabel priceValue)
                watchLink releaseLink repoLink)))))))))))))))))))))))))"






section \<open>The catalogue as the data model describes it\<close>

text \<open>
  A tool record: an object with a string \<open>slug\<close> and a string \<open>name\<close>; every other field is
  absent (missing or \<open>null\<close>) or has its type: strings for the tagline, the description, the
  image and the links, a sequence of strings for the features, a string or a sequence of
  strings for the two audience lists, a number for the price, under either key.
\<close>

fun is_str :: "js \<Rightarrow> bool" where
  "is_str (Str s) = True"
| "is_str v = False"

fun is_number :: "js \<Rightarrow> bool" where
  "is_number (Num v) = True"
| "is_number v = False"

fun str_list :: "js \<Rightarrow> bool" where
  "str_list (Arr xs) = list_all is_str xs"
| "str_list v = False"

definition absent :: "js \<Rightarrow> bool" where
  "absent v = (v = Undefined \<or> v = Null)"

fun is_tool :: "js \<Rightarrow> bool" where
  "is_tool (Obj ps) =
     (is_str (field ps ''slug'') \<and> is_str (field ps ''name'')
      \<and> list_all (\<lambda>k. absent (field ps k) \<or> is_str (field ps k))
           [''tagline'', ''description'', ''image'', ''video_url'', ''videoUrl'',
            ''repo_url'', ''repoUrl'', ''release_url'', ''releaseUrl'']
      \<and> (absent (field ps ''features'') \<or> str_list (field ps ''features''))
      \<and> list_all (\<lambda>k. absent (field ps k) \<or> is_str (field ps k) \<or> str_list (field ps k))
           [''for_who'', ''forWho'', ''not_for'', ''notFor'']
      \<and> list_all (\<lambda>k. absent (field ps k) \<or> is_number (field ps k)) [''price_eur'', ''price''])"
| "is_tool v = False"

text \<open>The slug and the name of a tool record.\<close>

fun str_of :: "js \<Rightarrow> string" where
  "str_of (Str s) = s"
| "str_of v = []"

fun tool_slug :: "js \<Rightarrow> string" where
  "tool_slug (Obj ps) = str_of (field ps ''slug'')"
| "tool_slug v = []"


text \<open>A string made of white space only (the empty string included).\<close>

definition ws_only :: "string \<Rightarrow> bool" where
  "ws_only s = (\<exists>ws. set ws \<subseteq> set ws_seqs \<and> s = concat ws)"

text \<open>
  What a card links to: its \<open>href\<close> attribute, and the \<open>slug\<close> parameter that the detail page
  reads from the query of that address.
\<close>

fun card_href :: "node \<Rightarrow> string option" where
  "card_href (Element tag attrs children) = map_of attrs ''href''"
| "card_href (Text s) = None"

definition href_slug :: "string \<Rightarrow> js" where
  "href_slug href =
     params_get (URLSearchParams (dropWhile (\<lambda>c. c \<noteq> CHR ''?'') href)) ''slug''"

text \<open>The text of the price label of a card: the content of its \<open>tool-price\<close> paragraph.\<close>

fun has_class :: "string \<Rightarrow> node \<Rightarrow> bool" where
  "has_class c (Element tag attrs children) = (map_of attrs ''class'' = Some c)"
| "has_class c (Text s) = False"

fun children_of :: "node \<Rightarrow> node list" where
  "children_of (Element tag attrs children) = children"
| "children_of (Text s) = []"

definition card_price_label :: "node \<Rightarrow> node list option" where
  "card_price_label a =
     (case List.find (has_class ''tool-card-content'') (children_of a) of
        None \<Rightarrow> None
      | Some content \<Rightarrow>
          (case List.find (has_class ''tool-price'') (children_of content) of
             None \<Rightarrow> None
           | Some p \<Rightarrow> Some (children_of p)))"

section \<open>Properties\<close>

lemma bnd_simps [simp]: "bnd (Inl e) f = Inl e" "bnd (Inr x) f = f x"
  by (simp_all add: bnd_def)

subsection \<open>Strings and the video pattern\<close>









subsection \<open>Tool records render without exceptions\<close>

lemma bnd_eq_Inr: "bnd m f = Inr y \<longleftrightarrow> (\<exists>x. m = Inr x \<and> f x = Inr y)"
  by (cases m) auto

lemma get_prop_Obj: "get_prop (Obj ps) k = Inr (field ps k)"
  by simp

lemma is_str_iff: "is_str v \<longleftrightarrow> (\<exists>s. v = Str s)"
  by (cases v) auto

lemma absent_not_truthy: "absent v \<Longrightarrow> \<not> truthy v"
  by (auto simp: absent_def)










lemma js_or_empty_str: "absent v \<or> is_str v \<Longrightarrow> absent (js_or v (Str [])) \<or> is_str (js_or v (Str []))"
  by (cases v) (auto simp: js_or_def absent_def)

lemma price_value_ok:
  assumes "absent (field ps ''price_eur'') \<or> is_number (field ps ''price_eur'')"
      and "absent (field ps ''price'') \<or> is_number (field ps ''price'')"
  shows "\<exists>v. price_value (Obj ps) = Inr v"
proof -
  have "\<exists>v. to_number (coalesce (coalesce a b) (Num (Fin 0))) = Inr v"
    if "absent a \<or> is_number a" "absent b \<or> is_number b" for a b
    using that by (cases a; cases b) (auto simp: coalesce_def absent_def)
  with assms show ?thesis by (simp add: price_value_def get_prop_Obj)
qed

lemma is_tool_fields:
  assumes "is_tool (Obj ps)"
  shows "is_str (field ps ''slug'')" "is_str (field ps ''name'')"
    "absent (field ps ''tagline'') \<or> is_str (field ps ''tagline'')"
    "absent (field ps ''description'') \<or> is_str (field ps ''description'')"
    "absent (field ps ''image'') \<or> is_str (field ps ''image'')"
    "absent (field ps ''video_url'') \<or> is_str (field ps ''video_url'')"
    "absent (field ps ''videoUrl'') \<or> is_str (field ps ''videoUrl'')"
    "absent (field ps ''repo_url'') \<or> is_str (field ps ''repo_url'')"
    "absent (field ps ''repoUrl'') \<or> is_str (field ps ''repoUrl'')"
    "absent (field ps ''release_url'') \<or> is_str (field ps ''release_url'')"
    "absent (field ps ''releaseUrl'') \<or> is_str (field ps ''releaseUrl'')"
    "absent (field ps ''features'') \<or> str_list (field ps ''features'')"
    "absent (field ps ''for_who'') \<or> is_str (field ps ''for_who'') \<or> str_list (field ps ''for_who'')"
    "absent (field ps ''forWho'') \<or> is_str (field ps ''forWho'') \<or> str_list (field ps ''forWho'')"
    "absent (field ps ''not_for'') \<or> is_str (field ps ''not_for'') \<or> str_list (field ps ''not_for'')"
    "absent (field ps ''notFor'') \<or> is_str (field ps ''notFor'') \<or> str_list (field ps ''notFor'')"
    "absent (field ps ''price_eur'') \<or> is_number (field ps ''price_eur'')"
    "absent (field ps ''price'') \<or> is_number (field ps ''price'')"
  using assms by simp_all

lemma is_tool_Obj: "is_tool t \<Longrightarrow> \<exists>ps. t = Obj ps"
  by (cases t) simp_all








subsection \<open>The slug survives the link\<close>

lemma split_on_no_sep: "d \<notin> set s \<Longrightarrow> split_on d s = [s]"
  by (induction s) auto

lemma percent_decode_plain: "c \<noteq> CHR ''%'' \<Longrightarrow> percent_decode (c # r) = c # percent_decode r"
proof (cases r)
  case (Cons a r')
  assume "c \<noteq> CHR ''%''"
  with Cons show ?thesis by (cases r') simp_all
qed simp

lemma hex_digits_table:
  "list_all (\<lambda>n. digit_in 16 (hex_upper n) = Some (int n)
      \<and> hex_upper n \<in> set ''0123456789ABCDEF'') [0..<16]"
  by code_simp

lemma hex_digit_value: "n < 16 \<Longrightarrow> digit_in 16 (hex_upper n) = Some (int n)"
  using hex_digits_table by (simp add: list_all_iff)

lemma hex_upper_chars: "n < 16 \<Longrightarrow> hex_upper n \<in> set ''0123456789ABCDEF''"
  using hex_digits_table unfolding list_all_iff by (metis atLeastLessThan_iff le0 set_upt)

lemma of_char_div: "(of_char c :: nat) div 16 < 16"
proof -
  have "(of_char c :: nat) < 256" by (rule nat_of_char_less_256)
  then show ?thesis by presburger
qed

lemma percent_decode_encoded: "percent_decode (percent_encode c @ r) = c # percent_decode r"
proof -
  let ?n = "of_char c :: nat"
  have "char_of (16 * int (?n div 16) + int (?n mod 16)) = char_of (int ?n)"
    by (simp add: zdiv_int zmod_int flip: of_nat_mult of_nat_add)
  also have "\<dots> = c" by simp
  finally show ?thesis
    by (simp add: percent_encode_def hex_digit_value of_char_div)
qed

lemma percent_decode_encodeURIComponent: "percent_decode (encodeURIComponent s) = s"
proof (induction s)
  case Nil
  show ?case by (simp add: encodeURIComponent_def)
next
  case (Cons c cs)
  have e: "encodeURIComponent (c # cs)
      = (if unreserved c then [c] else percent_encode c) @ encodeURIComponent cs"
    by (simp add: encodeURIComponent_def)
  show ?case
  proof (cases "unreserved c")
    case True
    then have "c \<noteq> CHR ''%''" by (auto simp: unreserved_def)
    with True Cons e show ?thesis by (simp add: percent_decode_plain)
  next
    case False
    with Cons e show ?thesis by (simp add: percent_decode_encoded)
  qed
qed

lemma encodeURIComponent_chars:
  "c \<in> set (encodeURIComponent s) \<Longrightarrow>
     unreserved c \<or> c = CHR ''%'' \<or> c \<in> set ''0123456789ABCDEF''"
proof (induction s)
  case Nil
  then show ?case by (simp add: encodeURIComponent_def)
next
  case (Cons x xs)
  have e: "encodeURIComponent (x # xs)
      = (if unreserved x then [x] else percent_encode x) @ encodeURIComponent xs"
    by (simp add: encodeURIComponent_def)
  from Cons.prems e consider "unreserved x \<and> c = x" | "c \<in> set (percent_encode x)"
    | "c \<in> set (encodeURIComponent xs)"
    by (auto split: if_splits)
  then show ?case
  proof cases
    case 2
    then have "c = CHR ''%'' \<or> c = hex_upper (of_char x div 16) \<or> c = hex_upper (of_char x mod 16)"
      by (simp add: percent_encode_def)
    moreover have "hex_upper (of_char x div 16) \<in> set ''0123456789ABCDEF''"
      by (rule hex_upper_chars[OF of_char_div])
    moreover have "hex_upper (of_char x mod 16) \<in> set ''0123456789ABCDEF''"
      by (rule hex_upper_chars) simp
    ultimately show ?thesis by metis
  qed (use Cons.IH in auto)
qed

lemma encodeURIComponent_safe:
  "CHR ''&'' \<notin> set (encodeURIComponent s)" "CHR ''+'' \<notin> set (encodeURIComponent s)"
  "CHR ''='' \<notin> set (encodeURIComponent s)"
  using encodeURIComponent_chars[of "CHR ''&''" s] encodeURIComponent_chars[of "CHR ''+''" s]
    encodeURIComponent_chars[of "CHR ''=''" s]
  by (auto simp: unreserved_def)

lemma form_decode_encodeURIComponent: "form_decode (encodeURIComponent s) = s"
proof -
  have "map (\<lambda>c. if c = CHR ''+'' then CHR '' '' else c) (encodeURIComponent s)
      = encodeURIComponent s"
    by (rule map_idI) (use encodeURIComponent_safe(2)[of s] in auto)
  then show ?thesis by (simp add: form_decode_def percent_decode_encodeURIComponent)
qed

lemma href_slug_encoded: "href_slug (''tool.html?slug='' @ encodeURIComponent s) = Str s"
proof -
  let ?e = "encodeURIComponent s"
  have sp: "split_on CHR ''&'' (''slug='' @ ?e) = [''slug='' @ ?e]"
    using encodeURIComponent_safe(1)[of s] by (intro split_on_no_sep) simp
  have nm: "form_decode ''slug'' = ''slug''" by (simp add: form_decode_def)
  have pp: "parse_pair (''slug='' @ ?e) = (''slug'', s)"
    by (simp add: parse_pair_def form_decode_encodeURIComponent nm)
  have q: "dropWhile (\<lambda>c. c \<noteq> CHR ''?'') (''tool.html?slug='' @ ?e) = ''?slug='' @ ?e"
    by simp
  have t: "(if startsWith (''?slug='' @ ?e) ''?'' then tl (''?slug='' @ ?e) else ''?slug='' @ ?e)
      = ''slug='' @ ?e"
    by simp
  have "URLSearchParams (''?slug='' @ ?e) = [(''slug'', s)]"
    unfolding URLSearchParams_def t sp using pp by simp
  then show ?thesis
    unfolding href_slug_def q by (simp add: params_get_def)
qed

subsection \<open>Cards of tool records\<close>

lemma getMediaElement_ok:
  assumes "absent (field ps ''image'') \<or> is_str (field ps ''image'')"
      and "is_str (field ps ''name'')"
  shows "getMediaElement (Obj ps) = Inr None
    \<or> (\<exists>kids. getMediaElement (Obj ps)
          = Inr (Some (Element ''div'' [(''class'', ''tool-media'')] kids)))"
proof (cases "truthy (field ps ''image'')")
  case False
  then show ?thesis by (simp add: getMediaElement_def)
next
  case True
  with assms(1) obtain f where f: "field ps ''image'' = Str f"
    by (auto simp: is_str_iff dest: absent_not_truthy)
  from assms(2) obtain n where n: "field ps ''name'' = Str n" by (auto simp: is_str_iff)
  from True f n show ?thesis by (simp add: getMediaElement_def)
qed

lemma getPriceLabel_ok:
  assumes "absent (field ps ''price_eur'') \<or> is_number (field ps ''price_eur'')"
      and "absent (field ps ''price'') \<or> is_number (field ps ''price'')"
  shows "\<exists>l. getPriceLabel (Obj ps) = Inr l"
proof -
  obtain v where "price_value (Obj ps) = Inr v" using price_value_ok[OF assms] by blast
  then show ?thesis by (simp add: getPriceLabel_def)
qed

lemma set_textContent_ok: "absent v \<or> is_str v \<Longrightarrow> \<exists>k. set_textContent v = Inr k"
  by (cases v) (auto simp: set_textContent_def absent_def)

lemma tool_card_is_tool:
  assumes "is_tool t"
  shows "\<exists>kids. tool_card t
    = Inr (Element ''a''
        [(''class'', ''tool-card''),
         (''href'', ''tool.html?slug='' @ encodeURIComponent (tool_slug t))] kids)"
proof -
  from assms obtain ps where t: "t = Obj ps" using is_tool_Obj by blast
  note a = is_tool_fields[OF assms[unfolded t]]
  obtain s where s: "field ps ''slug'' = Str s" using a(1) by (auto simp: is_str_iff)
  obtain media where media: "getMediaElement (Obj ps) = Inr media"
    using getMediaElement_ok[OF a(5) a(2)] by blast
  obtain title where title: "set_textContent (field ps ''name'') = Inr title"
    using set_textContent_ok a(2) by blast
  obtain tag where tag: "set_textContent (js_or (field ps ''tagline'') (Str [])) = Inr tag"
    using set_textContent_ok[OF js_or_empty_str[OF a(3)]] by blast
  obtain price where price: "getPriceLabel (Obj ps) = Inr price"
    using getPriceLabel_ok[OF a(17) a(18)] by blast
  show ?thesis
    unfolding t tool_card_def get_prop_Obj bnd_simps s to_string.simps media title tag price
      tool_slug.simps str_of.simps
    by blast
qed

lemma append_cards_is_tool:
  "\<forall>t\<in>set tools. is_tool t \<Longrightarrow>
     \<exists>cards. append_cards acc tools = (Inr (), acc @ cards)
       \<and> map tool_card tools = map Inr cards"
proof (induction tools arbitrary: acc)
  case Nil
  show ?case by simp
next
  case (Cons t ts)
  then obtain kids where k: "tool_card t = Inr (Element ''a''
        [(''class'', ''tool-card''),
         (''href'', ''tool.html?slug='' @ encodeURIComponent (tool_slug t))] kids)"
    using tool_card_is_tool[of t] by auto
  let ?a = "Element ''a'' [(''class'', ''tool-card''),
         (''href'', ''tool.html?slug='' @ encodeURIComponent (tool_slug t))] kids"
  from Cons obtain cards where c: "append_cards (acc @ [?a]) ts = (Inr (), (acc @ [?a]) @ cards)"
      "map tool_card ts = map Inr cards"
    by (metis list.set_intros(2))
  from k c have "append_cards acc (t # ts) = (Inr (), acc @ (?a # cards))
      \<and> map tool_card (t # ts) = map Inr (?a # cards)"
    by simp
  then show ?case by blast
qed

subsection \<open>C2: the catalogue request never fails\<close>

text \<open>
  C2: whatever the outcome of the request, \<open>fetchTools\<close> resolves (it never rejects). A
  rejected request, a status that is not OK, a body that does not parse and a parsed value
  that is not an array all give the empty sequence, the first three after reporting the error
  to the console; an OK response whose body parses to an array gives that array, and a
  non-empty result can only come from such a response.
\<close>

theorem fetchTools_never_rejects:
  "(\<exists>tools. fst (fetchTools r con) = Inr tools)
   \<and> fetchTools (Rejected e) con = (Inr [], con @ [e])
   \<and> fetchTools (Response False status body) con = (Inr [], con @ [FailedToLoad status])
   \<and> fetchTools (Response True status (Inl e)) con = (Inr [], con @ [e])
   \<and> (\<not> isArray v \<longrightarrow> fetchTools (Response True status (Inr v)) con = (Inr [], con))
   \<and> fetchTools (Response True status (Inr (Arr ts))) con = (Inr ts, con)
   \<and> (fst (fetchTools r con) = Inr ts \<and> ts \<noteq> []
        \<longrightarrow> (\<exists>status. r = Response True status (Inr (Arr ts))))"
proof -
  have 1: "\<exists>tools. fst (fetchTools r con) = Inr tools"
    by (simp add: fetchTools_def split: sum.splits)
  have 2: "fst (fetchTools r con) = Inr ts \<and> ts \<noteq> []
        \<longrightarrow> (\<exists>status. r = Response True status (Inr (Arr ts)))"
  proof (cases r)
    case (Rejected x)
    then show ?thesis by (auto simp: fetchTools_def)
  next
    case (Response ok st body)
    show ?thesis
    proof (cases body)
      case (Inl a)
      with Response show ?thesis by (auto simp: fetchTools_def)
    next
      case (Inr v)
      with Response show ?thesis by (cases v) (auto simp: fetchTools_def)
    qed
  qed
  show ?thesis using 1 2 by (simp add: fetchTools_def)
qed

theorem fetchTools_never_rejects_witness:
  "fetchTools (Rejected TypeError) [] = (Inr [], [TypeError])
   \<and> fetchTools (Response False 404 (Inr (Arr [Null]))) [] = (Inr [], [FailedToLoad 404])
   \<and> fetchTools (Response True 200 (Inl SyntaxError)) [] = (Inr [], [SyntaxError])
   \<and> fetchTools (Response True 200 (Inr (Obj []))) [] = (Inr [], [])
   \<and> fetchTools (Response True 200 (Inr (Arr [Str ''t'']))) [] = (Inr [Str ''t''], [])
   \<and> (\<exists>status. Response True 200 (Inr (Arr [Str ''t''])) = Response True status (Inr (Arr [Str ''t''])))"
proof -
  have a: "\<not> isArray (Obj [])" by simp
  note t = fetchTools_never_rejects
    [of "Response True 200 (Inr (Arr [Str ''t'']))" "[]" TypeError 404 "Inr (Arr [Null])"
        "Obj []" "[Str ''t'']"]
  note u = fetchTools_never_rejects
    [of "Response True 200 (Inr (Arr [Str ''t'']))" "[]" SyntaxError 200 "Inr (Arr [Null])"
        "Obj []" "[Str ''t'']"]
  from t have 1: "fetchTools (Rejected TypeError) [] = (Inr [], [] @ [TypeError])" by blast
  from t have 2: "fetchTools (Response False 404 (Inr (Arr [Null]))) []
      = (Inr [], [] @ [FailedToLoad 404])" by blast
  from u have 3: "fetchTools (Response True 200 (Inl SyntaxError)) [] = (Inr [], [] @ [SyntaxError])"
    by blast
  from u a have 4: "fetchTools (Response True 200 (Inr (Obj []))) [] = (Inr [], [])" by blast
  from u have 5: "fetchTools (Response True 200 (Inr (Arr [Str ''t'']))) [] = (Inr [Str ''t''], [])"
    by blast
  from u 5 have 6: "\<exists>status. Response True 200 (Inr (Arr [Str ''t'']))
      = Response True status (Inr (Arr [Str ''t'']))" by simp
  from 1 2 3 4 5 6 show ?thesis by simp
qed

subsection \<open>C5: video URL normalisation\<close>




subsection \<open>C3: one card per tool, in order\<close>

text \<open>
  C3: with the container present and a catalogue of tool records, \<open>loadTools\<close> ends without
  an exception; an empty catalogue leaves exactly the one paragraph \<open>no_tools_msg\<close> in the
  container; a non-empty catalogue leaves as many children as it has tools, the \<open>i\<close>-th being
  the card of the \<open>i\<close>-th tool, a \<open>tool-card\<close> link to \<open>tool.html?slug=\<close> followed by the encoded
  slug, from which the detail page reads back exactly the slug of that tool.
\<close>

theorem loadTools_one_card_per_tool:
  "tools_container pg = Some old \<and> fst (fetchTools r (console pg)) = Inr tools
     \<and> (\<forall>t\<in>set tools. is_tool t)
   \<longrightarrow> fst (loadTools pg r) = Inr ()
       \<and> (tools = [] \<longrightarrow> tools_container (snd (loadTools pg r)) = Some [no_tools_msg])
       \<and> (tools \<noteq> [] \<longrightarrow>
            (\<exists>cards. tools_container (snd (loadTools pg r)) = Some cards
               \<and> length cards = length tools
               \<and> (\<forall>i<length tools.
                     tool_card (tools ! i) = Inr (cards ! i)
                     \<and> has_class ''tool-card'' (cards ! i)
                     \<and> card_href (cards ! i)
                         = Some (''tool.html?slug='' @ encodeURIComponent (tool_slug (tools ! i)))
                     \<and> href_slug (''tool.html?slug='' @ encodeURIComponent (tool_slug (tools ! i)))
                         = Str (tool_slug (tools ! i)))))"
proof (intro impI)
  assume h: "tools_container pg = Some old \<and> fst (fetchTools r (console pg)) = Inr tools
     \<and> (\<forall>t\<in>set tools. is_tool t)"
  obtain con where f: "fetchTools r (console pg) = (Inr tools, con)"
    using h by (cases "fetchTools r (console pg)") auto
  obtain cards where c: "append_cards [] tools = (Inr (), [] @ cards)"
      "map tool_card tools = map Inr cards"
    using append_cards_is_tool[of tools "[]"] h by blast
  have len: "length cards = length tools" using c(2) by (metis length_map)
  have each: "tool_card (tools ! i) = Inr (cards ! i)
      \<and> has_class ''tool-card'' (cards ! i)
      \<and> card_href (cards ! i)
          = Some (''tool.html?slug='' @ encodeURIComponent (tool_slug (tools ! i)))
      \<and> href_slug (''tool.html?slug='' @ encodeURIComponent (tool_slug (tools ! i)))
          = Str (tool_slug (tools ! i))" if i: "i < length tools" for i
  proof -
    have "map tool_card tools ! i = map Inr cards ! i" using c(2) by simp
    with i len have eq: "tool_card (tools ! i) = Inr (cards ! i)" by simp
    have "is_tool (tools ! i)" using h i by simp
    then obtain kids where "tool_card (tools ! i) = Inr (Element ''a''
        [(''class'', ''tool-card''),
         (''href'', ''tool.html?slug='' @ encodeURIComponent (tool_slug (tools ! i)))] kids)"
      using tool_card_is_tool by blast
    with eq have "cards ! i = Element ''a''
        [(''class'', ''tool-card''),
         (''href'', ''tool.html?slug='' @ encodeURIComponent (tool_slug (tools ! i)))] kids"
      by simp
    with eq show ?thesis using href_slug_encoded[of "tool_slug (tools ! i)"] by simp
  qed
  have res: "loadTools pg r
      = (if tools = [] then (Inr (), pg\<lparr>tools_container := Some [no_tools_msg], console := con\<rparr>)
         else (Inr (), pg\<lparr>tools_container := Some cards, console := con\<rparr>))"
    using h f c(1) by (simp add: loadTools_def)
  show "fst (loadTools pg r) = Inr ()
       \<and> (tools = [] \<longrightarrow> tools_container (snd (loadTools pg r)) = Some [no_tools_msg])
       \<and> (tools \<noteq> [] \<longrightarrow>
            (\<exists>cards. tools_container (snd (loadTools pg r)) = Some cards
               \<and> length cards = length tools
               \<and> (\<forall>i<length tools.
                     tool_card (tools ! i) = Inr (cards ! i)
                     \<and> has_class ''tool-card'' (cards ! i)
                     \<and> card_href (cards ! i)
                         = Some (''tool.html?slug='' @ encodeURIComponent (tool_slug (tools ! i)))
                     \<and> href_slug (''tool.html?slug='' @ encodeURIComponent (tool_slug (tools ! i)))
                         = Str (tool_slug (tools ! i)))))"
  proof (intro conjI impI)
    show "fst (loadTools pg r) = Inr ()" using res by simp
    show "tools_container (snd (loadTools pg r)) = Some [no_tools_msg]" if "tools = []"
      using res that by simp
    show "\<exists>cards. tools_container (snd (loadTools pg r)) = Some cards
               \<and> length cards = length tools
               \<and> (\<forall>i<length tools.
                     tool_card (tools ! i) = Inr (cards ! i)
                     \<and> has_class ''tool-card'' (cards ! i)
                     \<and> card_href (cards ! i)
                         = Some (''tool.html?slug='' @ encodeURIComponent (tool_slug (tools ! i)))
                     \<and> href_slug (''tool.html?slug='' @ encodeURIComponent (tool_slug (tools ! i)))
                         = Str (tool_slug (tools ! i)))" if "tools \<noteq> []"
    proof -
      have "tools_container (snd (loadTools pg r)) = Some cards" using res that by simp
      with len each show ?thesis by blast
    qed
  qed
qed

theorem loadTools_one_card_per_tool_witness:
  "tools_container (snd (loadTools
      \<lparr>tools_container = Some [Text ''old''], tool_main = None, search = [], console = []\<rparr>
      (Response True 200 (Inr (Arr []))))) = Some [no_tools_msg]
   \<and> (\<exists>cards. tools_container (snd (loadTools
          \<lparr>tools_container = Some [Text ''old''], tool_main = None, search = [], console = []\<rparr>
          (Response True 200 (Inr (Arr
             [Obj [(''slug'', Str ''x''), (''name'', Str ''X''), (''price_eur'', Num (Fin 12))],
              Obj [(''slug'', Str ''a b&c''), (''name'', Str ''Y'')]]))))) = Some cards
        \<and> length cards = 2
        \<and> card_href (cards ! 0) = Some ''tool.html?slug=x''
        \<and> card_href (cards ! 1) = Some ''tool.html?slug=a%20b%26c''
        \<and> href_slug ''tool.html?slug=a%20b%26c'' = Str ''a b&c'')"
proof -
  let ?pg = "\<lparr>tools_container = Some [Text ''old''], tool_main = None, search = [],
      console = []\<rparr>"
  let ?x = "Obj [(''slug'', Str ''x''), (''name'', Str ''X''), (''price_eur'', Num (Fin 12))]"
  let ?y = "Obj [(''slug'', Str ''a b&c''), (''name'', Str ''Y'')]"
  have h0: "tools_container ?pg = Some [Text ''old'']
      \<and> fst (fetchTools (Response True 200 (Inr (Arr []))) (console ?pg)) = Inr []
      \<and> (\<forall>t\<in>set []. is_tool t)"
    by (simp add: fetchTools_def)
  have h2: "tools_container ?pg = Some [Text ''old'']
      \<and> fst (fetchTools (Response True 200 (Inr (Arr [?x, ?y]))) (console ?pg)) = Inr [?x, ?y]
      \<and> (\<forall>t\<in>set [?x, ?y]. is_tool t)"
    by (simp add: fetchTools_def field_def absent_def)
  note t0 = loadTools_one_card_per_tool[of ?pg "[Text ''old'']" "Response True 200 (Inr (Arr []))"
      "[]", THEN mp, OF h0, THEN conjunct2, THEN conjunct1, THEN mp, OF refl]
  have ne: "[?x, ?y] \<noteq> []" by simp
  note t2 = loadTools_one_card_per_tool[of ?pg "[Text ''old'']"
      "Response True 200 (Inr (Arr [?x, ?y]))" "[?x, ?y]",
      THEN mp, OF h2, THEN conjunct2, THEN conjunct2, THEN mp, OF ne]
  then obtain cards where c:
    "tools_container (snd (loadTools ?pg (Response True 200 (Inr (Arr [?x, ?y]))))) = Some cards"
    "length cards = length [?x, ?y]"
    "\<forall>i<length [?x, ?y].
        tool_card ([?x, ?y] ! i) = Inr (cards ! i)
        \<and> has_class ''tool-card'' (cards ! i)
        \<and> card_href (cards ! i)
            = Some (''tool.html?slug='' @ encodeURIComponent (tool_slug ([?x, ?y] ! i)))
        \<and> href_slug (''tool.html?slug='' @ encodeURIComponent (tool_slug ([?x, ?y] ! i)))
            = Str (tool_slug ([?x, ?y] ! i))"
    by blast
  have ex: "encodeURIComponent ''x'' = ''x''" by code_simp
  have ey: "encodeURIComponent ''a b&c'' = ''a%20b%26c''" by code_simp
  have sl: "tool_slug ?x = ''x''" "tool_slug ?y = ''a b&c''" by (simp_all add: field_def)
  from c(3)[rule_format, of 0] have 0: "card_href (cards ! 0) = Some ''tool.html?slug=x''"
    using ex sl by simp
  from c(3)[rule_format, of 1] have 1: "card_href (cards ! 1) = Some ''tool.html?slug=a%20b%26c''"
      "href_slug ''tool.html?slug=a%20b%26c'' = Str ''a b&c''"
    using ey sl by simp_all
  from c(1,2) 0 1 have "\<exists>cards.
      tools_container (snd (loadTools ?pg (Response True 200 (Inr (Arr [?x, ?y]))))) = Some cards
        \<and> length cards = 2
        \<and> card_href (cards ! 0) = Some ''tool.html?slug=x''
        \<and> card_href (cards ! 1) = Some ''tool.html?slug=a%20b%26c''
        \<and> href_slug ''tool.html?slug=a%20b%26c'' = Str ''a b&c''"
    by auto
  with t0 show ?thesis by blast
qed

subsection \<open>C8: the listing is rendered into a cleared container\<close>



subsection \<open>C7: the detail page looks the tool up by its slug\<close>



subsection \<open>C9: the purchase notice\<close>




subsection \<open>C10: a price that is not a number reads as free\<close>

lemma getMediaElement_shape:
  "getMediaElement tool = Inr media \<Longrightarrow>
     media = None \<or> (\<exists>kids. media = Some (Element ''div'' [(''class'', ''tool-media'')] kids))"
  by (auto simp: getMediaElement_def bnd_eq_Inr split: if_splits)

lemma tool_card_price:
  assumes "tool_card tool = Inr a" and "getPriceLabel tool = Inr l"
  shows "card_price_label a = Some [Text l]"
proof -
  from assms obtain s media title tag where m: "getMediaElement tool = Inr media"
    and a: "a = Element ''a''
              [(''class'', ''tool-card''), (''href'', ''tool.html?slug='' @ encodeURIComponent s)]
              ((case media of None \<Rightarrow> [] | Some m \<Rightarrow> [m])
               @ [Element ''div'' [(''class'', ''tool-card-content'')]
                    [Element ''h2'' [] title,
                     Element ''p'' [(''class'', ''tool-tagline'')] tag,
                     Element ''p'' [(''class'', ''tool-price''), (''aria-hidden'', ''true'')]
                       [Text l]]])"
    by (auto simp: tool_card_def bnd_eq_Inr)
  from getMediaElement_shape[OF m] show ?thesis
    unfolding a by (auto simp: card_price_label_def)
qed

text \<open>
  C10: a tool whose price coerces to \<open>NaN\<close> (\<open>Number(tool.price_eur ?? tool.price ?? 0)\<close>) has
  the listing label "Free", on its card too, and its detail view, whenever it renders, has
  the price line "Free" and the plain button label "Buy".
\<close>

theorem non_numeric_price_is_free:
  "price_value tool = Inr NaN \<longrightarrow>
     getPriceLabel tool = Inr ''Free''
     \<and> (\<forall>a. tool_card tool = Inr a \<longrightarrow> card_price_label a = Some [Text ''Free''])
     \<and> priceLine NaN = ''<p class=\"price\">Free</p>''
     \<and> buyLabel NaN = ''Buy''
     \<and> (\<forall>html. detail_markup tool = Inr html \<longrightarrow>
           (\<exists>n tg d v f fw nf w rl rp.
              html = detail_head n tg d @ detail_sections v f fw nf
                     @ detail_actions ''<p class=\"price\">Free</p>'' ''Buy'' w rl rp))"
proof (intro impI conjI allI)
  assume p: "price_value tool = Inr NaN"
  then show l: "getPriceLabel tool = Inr ''Free''" by (simp add: getPriceLabel_def)
  show "priceLine NaN = ''<p class=\"price\">Free</p>''" by (simp add: priceLine_def)
  show "buyLabel NaN = ''Buy''" by (simp add: buyLabel_def)
  show "card_price_label a = Some [Text ''Free'']" if "tool_card tool = Inr a" for a
    using tool_card_price[OF that l] .
  show "\<exists>n tg d v f fw nf w rl rp.
          html = detail_head n tg d @ detail_sections v f fw nf
                 @ detail_actions ''<p class=\"price\">Free</p>'' ''Buy'' w rl rp"
    if "detail_markup tool = Inr html" for html
  proof -
    from that p obtain n tg d v f fw nf w rl rp where
      "html = detail_head n tg d @ detail_sections v f fw nf
              @ detail_actions (priceLine NaN) (buyLabel NaN) w rl rp"
      unfolding detail_markup_def bnd_eq_Inr by auto
    then show ?thesis by (simp add: priceLine_def buyLabel_def, blast)
  qed
qed

lemma price_abc:
  "price_value (Obj [(''slug'', Str ''x''), (''name'', Str ''X''), (''price_eur'', Str ''abc'')])
   = Inr NaN"
  by code_simp

lemma card_abc:
  "tool_card (Obj [(''slug'', Str ''x''), (''name'', Str ''X''), (''price_eur'', Str ''abc'')])
   = Inr (Element ''a'' [(''class'', ''tool-card''), (''href'', ''tool.html?slug=x'')]
        [Element ''div'' [(''class'', ''tool-card-content'')]
          [Element ''h2'' [] [Text ''X''],
           Element ''p'' [(''class'', ''tool-tagline'')] [],
           Element ''p'' [(''class'', ''tool-price''), (''aria-hidden'', ''true'')]
             [Text ''Free'']]])"
  by code_simp

lemma markup_abc:
  "detail_markup (Obj [(''slug'', Str ''x''), (''name'', Str ''X''), (''price_eur'', Str ''abc'')])
   = Inr (detail_head ''X'' [] []
          @ detail_sections ''<p><em>Video coming soon.</em></p>'' ''<p>No features listed.</p>''
              ''<p>No audience listed.</p>'' ''<p>No exclusions listed.</p>''
          @ detail_actions ''<p class=\"price\">Free</p>'' ''Buy'' [] [] [])"
  by code_simp

theorem non_numeric_price_is_free_witness:
  "getPriceLabel (Obj [(''slug'', Str ''x''), (''name'', Str ''X''), (''price_eur'', Str ''abc'')])
     = Inr ''Free''
   \<and> card_price_label
       (Element ''a'' [(''class'', ''tool-card''), (''href'', ''tool.html?slug=x'')]
          [Element ''div'' [(''class'', ''tool-card-content'')]
            [Element ''h2'' [] [Text ''X''],
             Element ''p'' [(''class'', ''tool-tagline'')] [],
             Element ''p'' [(''class'', ''tool-price''), (''aria-hidden'', ''true'')]
               [Text ''Free'']]])
     = Some [Text ''Free'']
   \<and> (\<exists>n tg d v f fw nf w rl rp.
         detail_markup
           (Obj [(''slug'', Str ''x''), (''name'', Str ''X''), (''price_eur'', Str ''abc'')])
         = Inr (detail_head n tg d @ detail_sections v f fw nf
                @ detail_actions ''<p class=\"price\">Free</p>'' ''Buy'' w rl rp))"
proof -
  let ?t = "Obj [(''slug'', Str ''x''), (''name'', Str ''X''), (''price_eur'', Str ''abc'')]"
  note t = non_numeric_price_is_free[of ?t, THEN mp, OF price_abc]
  note 1 = t[THEN conjunct1]
  note 2 = t[THEN conjunct2, THEN conjunct1, THEN spec, THEN mp, OF card_abc]
  note 3 = t[THEN conjunct2, THEN conjunct2, THEN conjunct2, THEN conjunct2, THEN spec, THEN mp,
      OF markup_abc]
  from 3 markup_abc have 4: "\<exists>n tg d v f fw nf w rl rp.
         detail_markup ?t
         = Inr (detail_head n tg d @ detail_sections v f fw nf
                @ detail_actions ''<p class=\"price\">Free</p>'' ''Buy'' w rl rp)"
    by (simp only:) blast
  from 1 2 4 show ?thesis by blast
qed

end
